theory Spec2Isabelle
  imports Main
begin

section \<open>Python strings\<close>

text \<open>
  Strings are character lists. The catalog strings this program handles (type names,
  identifiers, default expressions, DDL) are ASCII text, and the string methods below are
  modelled on ASCII: \<open>lower\<close> and \<open>upper\<close> change the letters A-Z and a-z only, and the
  whitespace that \<open>strip\<close> removes is the ASCII whitespace of Python's \<open>str.isspace\<close>.
\<close>

definition ascii_uppercase :: string where
  "ascii_uppercase = ''ABCDEFGHIJKLMNOPQRSTUVWXYZ''"

definition ascii_lowercase :: string where
  "ascii_lowercase = ''abcdefghijklmnopqrstuvwxyz''"

definition digits :: string where
  "digits = ''0123456789''"

definition lower_char :: "char \<Rightarrow> char" where
  "lower_char c = (case map_of (zip ascii_uppercase ascii_lowercase) c of
                     Some d \<Rightarrow> d | None \<Rightarrow> c)"

definition upper_char :: "char \<Rightarrow> char" where
  "upper_char c = (case map_of (zip ascii_lowercase ascii_uppercase) c of
                     Some d \<Rightarrow> d | None \<Rightarrow> c)"

text \<open>\<^verbatim>\<open>s.lower()\<close> and \<^verbatim>\<open>s.upper()\<close>.\<close>

definition lower :: "string \<Rightarrow> string" where
  "lower s = map lower_char s"

definition upper :: "string \<Rightarrow> string" where
  "upper s = map upper_char s"

text \<open>\<^verbatim>\<open>s.startswith(p)\<close>, \<^verbatim>\<open>s.endswith(p)\<close> and the substring test \<^verbatim>\<open>p in s\<close>.\<close>

fun startswith :: "string \<Rightarrow> string \<Rightarrow> bool" where
  "startswith s [] = True"
| "startswith [] (p # ps) = False"
| "startswith (c # cs) (p # ps) = (c = p \<and> startswith cs ps)"

definition endswith :: "string \<Rightarrow> string \<Rightarrow> bool" where
  "endswith s p = startswith (rev s) (rev p)"

fun str_in :: "string \<Rightarrow> string \<Rightarrow> bool" where
  "str_in p [] = (p = [])"
| "str_in p (c # cs) = (startswith (c # cs) p \<or> str_in p cs)"

text \<open>\<^verbatim>\<open>s.strip()\<close>: whitespace is removed at both ends.\<close>

definition whitespace :: string where
  "whitespace = [CHR 0x09, CHR 0x0A, CHR 0x0B, CHR 0x0C, CHR 0x0D,
                 CHR 0x1C, CHR 0x1D, CHR 0x1E, CHR 0x1F, CHR 0x20]"

definition isspace :: "char \<Rightarrow> bool" where
  "isspace c = (c \<in> set whitespace)"

definition lstrip :: "string \<Rightarrow> string" where
  "lstrip s = dropWhile isspace s"

definition rstrip :: "string \<Rightarrow> string" where
  "rstrip s = rev (dropWhile isspace (rev s))"

definition strip :: "string \<Rightarrow> string" where
  "strip s = lstrip (rstrip s)"

text \<open>\<^verbatim>\<open>sep.join(xs)\<close>.\<close>

fun join :: "string \<Rightarrow> string list \<Rightarrow> string" where
  "join sep [] = []"
| "join sep [x] = x"
| "join sep (x # y # ys) = x @ sep @ join sep (y # ys)"

text \<open>\<^verbatim>\<open>str(n)\<close> for an integer: decimal digits, with a minus sign when negative.\<close>

fun str_of_nat :: "nat \<Rightarrow> string" where
  "str_of_nat n = (if n < 10 then [digits ! n]
                   else str_of_nat (n div 10) @ [digits ! (n mod 10)])"

definition str_of_int :: "int \<Rightarrow> string" where
  "str_of_int i = (if i < 0 then CHR ''-'' # str_of_nat (nat (- i)) else str_of_nat (nat i))"

section \<open>Values and catalog rows\<close>

text \<open>
  A Python value as the row dictionaries carry it. \<open>PObj t s\<close> is any other object
  (a datetime, a UUID, a Decimal, bytes): \<open>t\<close> is its truth value and \<open>s\<close> what
  \<^verbatim>\<open>str\<close> returns for it.
\<close>

datatype pyval = PNone | PBool bool | PInt int | PStr string | PObj bool string

fun truthy :: "pyval \<Rightarrow> bool" where
  "truthy PNone = False"
| "truthy (PBool b) = b"
| "truthy (PInt i) = (i \<noteq> 0)"
| "truthy (PStr s) = (s \<noteq> [])"
| "truthy (PObj t s) = t"

fun py_str :: "pyval \<Rightarrow> string" where
  "py_str PNone = ''None''"
| "py_str (PBool b) = (if b then ''True'' else ''False'')"
| "py_str (PInt i) = str_of_int i"
| "py_str (PStr s) = s"
| "py_str (PObj t s) = s"

text \<open>
  One row of \<^verbatim>\<open>information_schema.columns\<close> as \<^verbatim>\<open>get_table_schema\<close> returns it.
  \<open>column_name\<close>, \<open>data_type\<close> and \<open>is_nullable\<close> are read with \<^verbatim>\<open>col[...]\<close>;
  the other keys are read with \<^verbatim>\<open>.get\<close> and may be absent or NULL (\<open>None\<close>).
\<close>

record column_info =
  column_name :: string
  data_type :: string
  udt_name :: "string option"
  character_maximum_length :: "int option"
  numeric_precision :: "int option"
  numeric_scale :: "int option"
  is_nullable :: string
  column_default :: "string option"

record table_schema =
  table_name :: string
  columns :: "column_info list"
  primary_keys :: "string list"

section \<open>TypeConverter (src/migration/converter.py)\<close>

subsection \<open>\<^verbatim>\<open>convert_value\<close>\<close>

definition convert_value :: "pyval \<Rightarrow> string \<Rightarrow> pyval" where
  "convert_value v postgres_type =
     (if v = PNone then PNone
      else let base_type = lower postgres_type in
        if base_type = ''boolean'' then (if truthy v then PInt 1 else PInt 0)
        else if base_type = ''uuid'' then PStr (py_str v)
        else if base_type \<in> set [''timestamp'', ''timestamptz''] then v
        else v)"

subsection \<open>\<^verbatim>\<open>should_ignore_column\<close>\<close>

text \<open>
  The body of the \<^verbatim>\<open>for ignore_type in ignore_types\<close> loop returns at the first of its
  three tests that holds; the third test, on the leading underscore, sits inside the loop.
  When the loop ends without returning, the function returns False.
\<close>

fun should_ignore_loop :: "string \<Rightarrow> string \<Rightarrow> string list \<Rightarrow> bool" where
  "should_ignore_loop dt udt [] = False"
| "should_ignore_loop dt udt (ignore_type # rest) =
     (if str_in ignore_type dt then True
      else if str_in ignore_type udt then True
      else if startswith udt ''_'' then True
      else should_ignore_loop dt udt rest)"

definition should_ignore_column :: "column_info \<Rightarrow> string list \<Rightarrow> bool" where
  "should_ignore_column col ignore_types =
     (let dt = lower (data_type col);
          udt = lower (case udt_name col of None \<Rightarrow> '''' | Some u \<Rightarrow> u)
      in should_ignore_loop dt udt ignore_types)"

subsection \<open>\<^verbatim>\<open>convert_column_type\<close>\<close>

text \<open>
  \<^verbatim>\<open>template.format(**kwargs)\<close> for the templates of the type mapping: \<^verbatim>\<open>{name}\<close> is
  replaced by the keyword argument of that name, \<^verbatim>\<open>{{\<close> and \<^verbatim>\<open>}}\<close> stand for one brace.
  \<open>None\<close> is the exception Python raises: KeyError or IndexError for a field that is no
  keyword argument, ValueError for an unmatched brace. Templates whose fields carry a
  conversion flag, a format specification or an attribute or index access are outside
  this model.
\<close>

function py_format :: "string \<Rightarrow> (string \<times> string) list \<Rightarrow> string option" where
  "py_format [] kwargs = Some []"
| "py_format (c # cs) kwargs =
     (if c = CHR ''{'' then
        (if startswith cs ''{'' then map_option ((#) CHR ''{'') (py_format (tl cs) kwargs)
         else if CHR ''}'' \<notin> set cs then None
         else (case map_of kwargs (takeWhile (\<lambda>x. x \<noteq> CHR ''}'') cs) of
                 None \<Rightarrow> None
               | Some v \<Rightarrow>
                   map_option ((@) v)
                     (py_format (tl (dropWhile (\<lambda>x. x \<noteq> CHR ''}'') cs)) kwargs)))
      else if c = CHR ''}'' then
        (if startswith cs ''}'' then map_option ((#) CHR ''}'') (py_format (tl cs) kwargs)
         else None)
      else map_option ((#) c) (py_format cs kwargs))"
  by pat_completeness auto
termination
proof (relation "measure (\<lambda>(s, kwargs). length s)")
  fix c :: char and cs :: string and kwargs :: "(string \<times> string) list"
  have "length (tl (dropWhile (\<lambda>x. x \<noteq> CHR ''}'') cs)) \<le> length cs"
    using length_dropWhile_le [of "\<lambda>x. x \<noteq> CHR ''}''" cs] by simp
  then show "((tl (dropWhile (\<lambda>x. x \<noteq> CHR ''}'') cs), kwargs), c # cs, kwargs)
               \<in> measure (\<lambda>(s, kwargs). length s)"
    by simp
qed auto

text \<open>\<^verbatim>\<open>x or d\<close> for an optional integer: the default replaces None and 0.\<close>

definition py_or :: "int option \<Rightarrow> int \<Rightarrow> int" where
  "py_or x d = (case x of None \<Rightarrow> d | Some i \<Rightarrow> if i = 0 then d else i)"

definition type_aliases :: "(string \<times> string) list" where
  "type_aliases = [(''character varying'', ''varchar''),
                   (''character'', ''char''),
                   (''timestamp with time zone'', ''timestamptz''),
                   (''timestamp without time zone'', ''timestamp'')]"

text \<open>
  The type mapping is the section \<^verbatim>\<open>postgres_to_mysql\<close> of the configuration file
  \<^verbatim>\<open>config/type_mapping.yaml\<close>, loaded when the converter is built; it is a parameter
  here. \<open>None\<close> is an exception raised by \<^verbatim>\<open>format\<close>.
\<close>

definition convert_column_type ::
  "(string \<rightharpoonup> string) \<Rightarrow> string \<Rightarrow> column_info \<Rightarrow> string option" where
  "convert_column_type type_mapping postgres_type col =
     (let base_type = lower postgres_type;
          base_type = (case map_of type_aliases base_type of
                         Some a \<Rightarrow> a | None \<Rightarrow> base_type)
      in if base_type \<in> set [''decimal'', ''numeric''] then
           (let precision = numeric_precision col;
                scale = numeric_scale col;
                target_type = (case type_mapping ''decimal'' of
                                 Some t \<Rightarrow> t | None \<Rightarrow> ''DECIMAL({precision},{scale})'')
            in py_format target_type
                 [(''precision'', str_of_int (py_or precision 10)),
                  (''scale'', str_of_int (py_or scale 0))])
         else if base_type \<in> set [''char'', ''varchar''] then
           (let len = character_maximum_length col
            in if base_type = ''varchar'' \<and> len = None then
                 Some (case type_mapping ''text'' of Some t \<Rightarrow> t | None \<Rightarrow> ''TEXT'')
               else
                 (let len = (if base_type = ''char'' \<and> len = None then Some 1 else len);
                      target_type = (case type_mapping base_type of
                                       Some t \<Rightarrow> t | None \<Rightarrow> upper base_type)
                  in py_format target_type [(''length'', str_of_int (py_or len 255))]))
         else Some (case type_mapping base_type of
                      Some t \<Rightarrow> t | None \<Rightarrow> upper postgres_type))"

section \<open>SchemaMigrator (src/migration/schema.py)\<close>

subsection \<open>\<^verbatim>\<open>_quote_identifier\<close>\<close>

text \<open>\<^verbatim>\<open>s.replace(c, r)\<close> for a one-character pattern.\<close>

definition replace_char :: "char \<Rightarrow> string \<Rightarrow> string \<Rightarrow> string" where
  "replace_char c r s = concat (map (\<lambda>x. if x = c then r else [x]) s)"

definition quote_identifier :: "string \<Rightarrow> string" where
  "quote_identifier name =
     (let escaped = replace_char (CHR ''`'') ''``'' name in ''`'' @ escaped @ ''`'')"

subsection \<open>\<^verbatim>\<open>_normalize_default\<close>\<close>

text \<open>
  \<^verbatim>\<open>re.sub(r"::[A-Za-z0-9_ ]+$", "", expr)\<close>. The pattern matches at the first position
  where \<^verbatim>\<open>::\<close> is followed, up to the end of the string, by one or more characters of the
  class; \<^verbatim>\<open>$\<close> also matches before a final newline, which then stays. A match leaves no
  room for a second one, since the class has no colon.
\<close>

definition cast_chars :: string where
  "cast_chars = ascii_uppercase @ ascii_lowercase @ digits @ ''_ ''"

definition is_cast_suffix :: "string \<Rightarrow> bool" where
  "is_cast_suffix s =
     (startswith s ''::'' \<and>
      (let r = drop 2 s;
           r = (if endswith r ''\<newline>'' then butlast r else r)
       in r \<noteq> [] \<and> list_all (\<lambda>c. c \<in> set cast_chars) r))"

fun sub_cast :: "string \<Rightarrow> string" where
  "sub_cast [] = []"
| "sub_cast (c # cs) =
     (if is_cast_suffix (c # cs) then (if endswith cs ''\<newline>'' then ''\<newline>'' else [])
      else c # sub_cast cs)"

text \<open>
  The first half of \<open>_normalize_default\<close>: the expression without surrounding
  whitespace, without one enclosing pair of parentheses and without a trailing cast.
\<close>

definition strip_default :: "string \<Rightarrow> string" where
  "strip_default default_expr =
     (let expr = strip default_expr;
          expr = (if startswith expr ''('' \<and> endswith expr '')''
                  then strip (butlast (tl expr)) else expr)
      in strip (sub_cast expr))"

definition normalize_default :: "string \<Rightarrow> string \<Rightarrow> string" where
  "normalize_default base_type default_expr =
     (if default_expr = [] then []
      else
        (let expr = strip_default default_expr;
             normalized = lower expr
         in if base_type = ''boolean'' \<and> normalized \<in> set [''true'', ''t'', ''1''] then ''1''
            else if base_type = ''boolean'' \<and> normalized \<in> set [''false'', ''f'', ''0''] then ''0''
            else if normalized = ''now()'' then ''CURRENT_TIMESTAMP''
            else expr))"

subsection \<open>\<^verbatim>\<open>generate_create_table_sql\<close>\<close>

text \<open>\<^verbatim>\<open>col.get('column_default') or ''\<close>.\<close>

definition default_or_empty :: "column_info \<Rightarrow> string" where
  "default_or_empty col = (case column_default col of None \<Rightarrow> [] | Some d \<Rightarrow> d)"

definition is_serial :: "column_info \<Rightarrow> bool" where
  "is_serial col =
     (let base_type = lower (data_type col);
          has_sequence_default = str_in ''nextval('' (lower (default_or_empty col))
      in base_type \<in> set [''serial'', ''bigserial''] \<or> has_sequence_default)"

text \<open>
  The DEFAULT clause of a column: empty for a serial column, otherwise the normalised
  default behind the keyword, or empty when there is none.
\<close>

definition default_clause :: "column_info \<Rightarrow> string" where
  "default_clause col =
     (if is_serial col then []
      else (let normalized_default =
                  normalize_default (lower (data_type col)) (default_or_empty col)
            in if normalized_default \<noteq> [] then ''DEFAULT '' @ normalized_default else []))"

text \<open>
  The body of the loop over the kept columns: one column definition. \<open>None\<close> is an
  exception of \<open>convert_column_type\<close>.
\<close>

definition column_definition ::
  "(string \<rightharpoonup> string) \<Rightarrow> string list \<Rightarrow> column_info \<Rightarrow> string option" where
  "column_definition type_mapping pks col =
     (let col_name = column_name col;
          quoted_col_name = quote_identifier col_name;
          postgres_type = data_type col;
          nullable = (if is_nullable col = ''NO'' then ''NOT NULL'' else [])
      in case convert_column_type type_mapping postgres_type col of
           None \<Rightarrow> None
         | Some target_type \<Rightarrow>
             (let is_primary = (col_name \<in> set pks);
                  dflt = default_clause col;
                  target_type = (if is_primary \<and> is_serial col
                                 then target_type @ '' AUTO_INCREMENT'' else target_type)
              in Some (strip (''    '' @ quoted_col_name @ '' '' @ target_type @ '' ''
                               @ nullable @ '' '' @ dflt))))"

fun column_definitions ::
  "(string \<rightharpoonup> string) \<Rightarrow> string list \<Rightarrow> column_info list \<Rightarrow> string list option" where
  "column_definitions type_mapping pks [] = Some []"
| "column_definitions type_mapping pks (col # cols) =
     (case column_definition type_mapping pks col of
        None \<Rightarrow> None
      | Some d \<Rightarrow> map_option ((#) d) (column_definitions type_mapping pks cols))"

definition generate_create_table_sql ::
  "(string \<rightharpoonup> string) \<Rightarrow> table_schema \<Rightarrow> string list \<Rightarrow> (string \<times> string list) option" where
  "generate_create_table_sql type_mapping schema ignore_types =
     (let filtered_columns =
            filter (\<lambda>col. \<not> should_ignore_column col ignore_types) (columns schema);
          ignored_columns =
            map column_name
              (filter (\<lambda>col. should_ignore_column col ignore_types) (columns schema))
      in case column_definitions type_mapping (primary_keys schema) filtered_columns of
           None \<Rightarrow> None
         | Some column_defs \<Rightarrow>
             (let valid_primary_keys =
                    filter (\<lambda>pk. pk \<notin> set ignored_columns) (primary_keys schema);
                  primary_key_def =
                    (if valid_primary_keys \<noteq> []
                     then '',\<newline>    PRIMARY KEY (''
                          @ join '', '' (map quote_identifier valid_primary_keys) @ '')''
                     else [])
              in Some (''CREATE TABLE IF NOT EXISTS '' @ quote_identifier (table_name schema)
                         @ '' (\<newline>'' @ join '',\<newline>'' column_defs @ primary_key_def
                         @ ''\<newline>) ENGINE=InnoDB DEFAULT CHARSET=utf8mb4;'',
                       ignored_columns)))"

subsection \<open>\<^verbatim>\<open>_generate_create_index_sql\<close>\<close>

definition generate_create_index_sql ::
  "string \<Rightarrow> string \<Rightarrow> string list \<Rightarrow> bool \<Rightarrow> string" where
  "generate_create_index_sql tname index_name cols is_unique =
     (let quoted_table = quote_identifier tname;
          quoted_index = quote_identifier index_name;
          columns_str = join '', '' (map quote_identifier cols);
          unique = (if is_unique then ''UNIQUE '' else [])
      in ''CREATE '' @ unique @ ''INDEX '' @ quoted_index @ '' ON '' @ quoted_table
           @ '' ('' @ columns_str @ '');'')"

section \<open>DataMigrator (src/migration/data.py)\<close>

subsection \<open>Configuration, collaborators and results\<close>

text \<open>
  The settings \<open>migrate_table_data\<close> reads from the configuration, with the defaults of
  its \<^verbatim>\<open>.get\<close> calls.
\<close>

record config =
  batch_size :: int
  chunk_size :: int
  max_retries :: int
  retry_delay :: int
  continue_on_error :: bool

definition default_config :: config where
  "default_config = \<lparr>batch_size = 1000, chunk_size = 10000, max_retries = 3,
     retry_delay = 5, continue_on_error = False\<rparr>"

text \<open>
  The source and target clients are collaborators: each call takes the state \<open>'e\<close> of the
  outside world (databases, connections) and returns its answer with the new state. An
  answer is a value or a raised exception.
\<close>

datatype error = Exception

type_synonym row = "(string \<times> pyval) list"

record 'e clients =
  get_table_count :: "'e \<Rightarrow> string \<Rightarrow> string \<Rightarrow> (error + int) \<times> 'e"
  get_table_schema :: "'e \<Rightarrow> string \<Rightarrow> string \<Rightarrow> (error + table_schema) \<times> 'e"
  get_table_data ::
    "'e \<Rightarrow> string \<Rightarrow> string \<Rightarrow> int \<Rightarrow> int \<Rightarrow> string list \<Rightarrow> (error + row list) \<times> 'e"
  insert_batch :: "'e \<Rightarrow> string \<Rightarrow> row list \<Rightarrow> int \<Rightarrow> (error + int) \<times> 'e"

text \<open>
  The calls made, in order: the row count, the schema, a chunk read with its offset and
  limit, a batch insertion with the number of rows handed over, and \<^verbatim>\<open>time.sleep\<close>.
\<close>

datatype call = GetTableCount | GetTableSchema | GetTableData int int | InsertBatch nat
  | Sleep int

fun is_insert :: "call \<Rightarrow> bool" where
  "is_insert (InsertBatch n) = True"
| "is_insert c = False"

fun is_read :: "call \<Rightarrow> bool" where
  "is_read (GetTableData off lim) = True"
| "is_read c = False"

text \<open>The dictionary returned for a table: keys in the order of the dictionary display.\<close>

datatype rval = RStr string | RInt int

type_synonym result = "(string \<times> rval) list"

subsection \<open>\<^verbatim>\<open>_normalize_postgres_type\<close> and \<^verbatim>\<open>_get_column_type_map\<close>\<close>

definition normalize_postgres_type :: "string \<Rightarrow> string" where
  "normalize_postgres_type dt =
     (let normalized = lower dt
      in if normalized = ''timestamp with time zone'' then ''timestamptz''
         else if normalized = ''timestamp without time zone'' then ''timestamp''
         else normalized)"

fun column_type_map_loop ::
  "column_info list \<Rightarrow> string list \<Rightarrow> (string \<rightharpoonup> string) \<Rightarrow> (string \<rightharpoonup> string)" where
  "column_type_map_loop [] ignore_columns column_types = column_types"
| "column_type_map_loop (col # cols) ignore_columns column_types =
     (let col_name = column_name col
      in if col_name = [] \<or> col_name \<in> set ignore_columns
         then column_type_map_loop cols ignore_columns column_types
         else
           (let dt = normalize_postgres_type (data_type col)
            in column_type_map_loop cols ignore_columns
                 (column_types(col_name \<mapsto> (if dt = [] then ''text'' else dt)))))"

definition column_type_map :: "table_schema \<Rightarrow> string list \<Rightarrow> (string \<rightharpoonup> string)" where
  "column_type_map schema_info ignore_columns =
     column_type_map_loop (columns schema_info) ignore_columns Map.empty"

subsection \<open>\<^verbatim>\<open>migrate_table_data\<close>\<close>

text \<open>The local variables of the loop, the outside world and the calls made so far.\<close>

record 'e loop_state =
  env :: 'e
  calls :: "call list"
  migrated :: int
  failed :: int
  retry_count :: int

datatype control = Break | Continue

text \<open>
  The \<^verbatim>\<open>except Exception\<close> handler: a chunk's worth is added to \<open>failed\<close>, and the loop
  is left unless \<open>continue_on_error\<close> is set. Nothing else changes.
\<close>

definition on_exception :: "config \<Rightarrow> 'e loop_state \<Rightarrow> control \<times> 'e loop_state" where
  "on_exception cfg st =
     (let st = st\<lparr>failed := failed st + chunk_size cfg\<rparr>
      in if \<not> continue_on_error cfg then (Break, st) else (Continue, st))"

text \<open>
  The conversion of one row: \<^verbatim>\<open>column_types.get(col_name) or 'text'\<close> selects the type.
\<close>

definition convert_row :: "(string \<rightharpoonup> string) \<Rightarrow> row \<Rightarrow> row" where
  "convert_row column_types r =
     map (\<lambda>(col_name, v).
            (col_name,
             convert_value v (case column_types col_name of
                                None \<Rightarrow> ''text''
                              | Some t \<Rightarrow> if t = [] then ''text'' else t))) r"

text \<open>
  \<^verbatim>\<open>time.sleep(retry_delay)\<close> raises instead of sleeping when the delay is out of range:
  ValueError for a negative delay, and OSError or OverflowError for a delay that the
  platform's clock cannot take, which on a 64-bit build of CPython 3.11 is every delay from
  9223372036 seconds on. All three are caught by the \<^verbatim>\<open>except Exception\<close> handler. The
  delay is a whole number of seconds.
\<close>

definition sleep_raises :: "int \<Rightarrow> bool" where
  "sleep_raises delay = (delay < 0 \<or> 9223372036 \<le> delay)"

text \<open>
  One pass through the body of the \<^verbatim>\<open>while\<close> loop. An exception of the read or of the
  insertion goes to the handler, and so does an exception of \<^verbatim>\<open>time.sleep\<close>, which is
  raised after \<open>retry_count\<close> has been incremented. Logging and the progress bar are left
  out, and the conversion of a row does not raise.
\<close>

definition loop_body ::
  "'e clients \<Rightarrow> config \<Rightarrow> string \<Rightarrow> string \<Rightarrow> string list \<Rightarrow> (string \<rightharpoonup> string)
     \<Rightarrow> 'e loop_state \<Rightarrow> control \<times> 'e loop_state" where
  "loop_body cl cfg tn sch ignore_columns column_types st =
     (case get_table_data cl (env st) tn sch (migrated st) (chunk_size cfg) ignore_columns of
        (Inl ex, e1) \<Rightarrow>
          on_exception cfg
            (st\<lparr>env := e1,
                calls := calls st @ [GetTableData (migrated st) (chunk_size cfg)]\<rparr>)
      | (Inr data, e1) \<Rightarrow>
          (let st1 = st\<lparr>env := e1,
                        calls := calls st @ [GetTableData (migrated st) (chunk_size cfg)]\<rparr>
           in if data = [] then (Break, st1)
              else
                (let converted_data = map (convert_row column_types) data
                 in case insert_batch cl e1 tn converted_data (batch_size cfg) of
                      (Inl ex, e2) \<Rightarrow>
                        on_exception cfg
                          (st1\<lparr>env := e2,
                               calls := calls st1 @ [InsertBatch (length converted_data)]\<rparr>)
                    | (Inr inserted, e2) \<Rightarrow>
                        (let st2 = st1\<lparr>env := e2,
                                       calls := calls st1
                                                  @ [InsertBatch (length converted_data)]\<rparr>
                         in if inserted = 0 then
                              (let st3 = st2\<lparr>failed := failed st2
                                                         + int (length converted_data)\<rparr>
                               in if retry_count st3 < max_retries cfg then
                                    (let st4 = st3\<lparr>retry_count := retry_count st3 + 1\<rparr>
                                     in if sleep_raises (retry_delay cfg) then on_exception cfg st4
                                        else (Continue,
                                              st4\<lparr>calls := calls st4
                                                              @ [Sleep (retry_delay cfg)]\<rparr>))
                                  else (Break, st3))
                            else (Continue,
                                  st2\<lparr>migrated := migrated st2 + inserted,
                                      retry_count := 0\<rparr>)))))"

text \<open>
  The \<^verbatim>\<open>while migrated < total_count\<close> loop. It need not end, so it is a partial
  function: \<open>None\<close> means that the loop runs forever.
\<close>

partial_function (option) migrate_loop ::
  "'e clients \<Rightarrow> config \<Rightarrow> string \<Rightarrow> string \<Rightarrow> string list \<Rightarrow> (string \<rightharpoonup> string)
     \<Rightarrow> int \<Rightarrow> 'e loop_state \<Rightarrow> 'e loop_state option" where
  "migrate_loop cl cfg tn sch ignore_columns column_types total_count st =
     (if migrated st < total_count then
        (case loop_body cl cfg tn sch ignore_columns column_types st of
           (Break, st') \<Rightarrow> Some st'
         | (Continue, st') \<Rightarrow>
             migrate_loop cl cfg tn sch ignore_columns column_types total_count st')
      else Some st)"

declare migrate_loop.simps [code]

text \<open>
  \<open>migrate_table_data\<close> returns, when it returns, the answer (an exception of the two
  calls outside the \<^verbatim>\<open>try\<close>, or the result dictionary), the state of the outside world
  and the calls made. \<open>None\<close>: it does not return.
\<close>

definition migrate_table_data ::
  "'e clients \<Rightarrow> config \<Rightarrow> string \<Rightarrow> string \<Rightarrow> string list \<Rightarrow> 'e
     \<Rightarrow> ((error + result) \<times> 'e \<times> call list) option" where
  "migrate_table_data cl cfg tn sch ignore_columns e0 =
     (case get_table_count cl e0 tn sch of
        (Inl ex, e1) \<Rightarrow> Some (Inl ex, e1, [GetTableCount])
      | (Inr total_count, e1) \<Rightarrow>
          if total_count = 0 then
            Some (Inr [(''table_name'', RStr tn), (''status'', RStr ''skipped'')],
                  e1, [GetTableCount])
          else
            (case get_table_schema cl e1 tn sch of
               (Inl ex, e2) \<Rightarrow> Some (Inl ex, e2, [GetTableCount, GetTableSchema])
             | (Inr schema_info, e2) \<Rightarrow>
                 (case migrate_loop cl cfg tn sch ignore_columns
                         (column_type_map schema_info ignore_columns) total_count
                         \<lparr>env = e2, calls = [GetTableCount, GetTableSchema],
                          migrated = 0, failed = 0, retry_count = 0\<rparr> of
                    None \<Rightarrow> None
                  | Some st \<Rightarrow>
                      Some (Inr [(''table_name'', RStr tn),
                                 (''status'',
                                  RStr (if failed st = 0 then ''success'' else ''partial'')),
                                 (''migrated'', RInt (migrated st)),
                                 (''failed'', RInt (failed st)),
                                 (''total'', RInt total_count)],
                            env st, calls st))))"

section \<open>Example inputs\<close>

text \<open>
  The entries of the type mapping that the repository's tests rely on
  (tests/test_converter.py, tests/test_schema.py).
\<close>

definition test_mapping :: "(string \<times> string) list" where
  "test_mapping = [(''integer'', ''INT''), (''boolean'', ''TINYINT(1)''),
     (''text'', ''LONGTEXT''), (''bytea'', ''LONGBLOB''),
     (''decimal'', ''DECIMAL({precision},{scale})''), (''varchar'', ''VARCHAR({length})'')]"

text \<open>
  Default expressions with single quotes: \<^verbatim>\<open>'pending'::character varying\<close> and the
  literal \<^verbatim>\<open>'pending'\<close>, and the same with a capital letter.
\<close>

definition pending_default :: string where
  "pending_default = CHR 0x27 # ''pending'' @ CHR 0x27 # ''::character varying''"

definition pending_literal :: string where
  "pending_literal = CHR 0x27 # ''pending'' @ [CHR 0x27]"

definition Pending_default :: string where
  "Pending_default = CHR 0x27 # ''Pending'' @ CHR 0x27 # ''::character varying''"

definition Pending_literal :: string where
  "Pending_literal = CHR 0x27 # ''Pending'' @ [CHR 0x27]"

definition tags_column :: column_info where
  "tags_column = \<lparr>column_name = ''tags'', data_type = ''ARRAY'', udt_name = Some ''_text'',
     character_maximum_length = None, numeric_precision = None, numeric_scale = None,
     is_nullable = ''YES'', column_default = None\<rparr>"

definition status_column :: column_info where
  "status_column = \<lparr>column_name = ''status'', data_type = ''varchar'', udt_name = None,
     character_maximum_length = Some 32, numeric_precision = None, numeric_scale = None,
     is_nullable = ''NO'', column_default = Some pending_default\<rparr>"

definition created_at_column :: column_info where
  "created_at_column = \<lparr>column_name = ''created_at'', data_type = ''timestamp'',
     udt_name = None, character_maximum_length = None, numeric_precision = None,
     numeric_scale = None, is_nullable = ''YES'', column_default = Some ''now()''\<rparr>"

text \<open>
  Two integer columns whose default draws from a sequence; only \<open>id\<close> is in the
  primary key of \<open>events\<close>.
\<close>

definition id_column :: column_info where
  "id_column = \<lparr>column_name = ''id'', data_type = ''integer'', udt_name = Some ''int4'',
     character_maximum_length = None, numeric_precision = Some 32, numeric_scale = Some 0,
     is_nullable = ''NO'',
     column_default =
       Some (''nextval('' @ CHR 0x27 # ''events_id_seq'' @ CHR 0x27 # ''::regclass)'')\<rparr>"

definition seq_column :: column_info where
  "seq_column = \<lparr>column_name = ''seq'', data_type = ''integer'', udt_name = Some ''int4'',
     character_maximum_length = None, numeric_precision = Some 32, numeric_scale = Some 0,
     is_nullable = ''NO'',
     column_default =
       Some (''nextval('' @ CHR 0x27 # ''events_seq_seq'' @ CHR 0x27 # ''::regclass)'')\<rparr>"

definition events_schema :: table_schema where
  "events_schema = \<lparr>table_name = ''events'', columns = [id_column, seq_column],
     primary_keys = [''id'']\<rparr>"

text \<open>A table whose name has a backtick and whose primary key names an ignored column.\<close>

definition orders_schema :: table_schema where
  "orders_schema = \<lparr>table_name = ''or`ders'',
     columns = [id_column, status_column, created_at_column, tags_column],
     primary_keys = [''id'', ''tags'']\<rparr>"

text \<open>
  The fixtures of tests/test_data.py: a table of two rows, read in one chunk, and the
  configuration of the tests. The outside world has no state of its own here.
\<close>

definition test_schema :: table_schema where
  "test_schema = \<lparr>table_name = ''test_table'',
     columns = [
       \<lparr>column_name = ''id'', data_type = ''integer'', udt_name = None,
        character_maximum_length = None, numeric_precision = None, numeric_scale = None,
        is_nullable = ''NO'', column_default = None\<rparr>,
       \<lparr>column_name = ''name'', data_type = ''varchar'', udt_name = None,
        character_maximum_length = None, numeric_precision = None, numeric_scale = None,
        is_nullable = ''YES'', column_default = None\<rparr>,
       \<lparr>column_name = ''is_active'', data_type = ''boolean'', udt_name = None,
        character_maximum_length = None, numeric_precision = None, numeric_scale = None,
        is_nullable = ''YES'', column_default = None\<rparr>],
     primary_keys = [''id'']\<rparr>"

definition test_rows :: "row list" where
  "test_rows = [[(''id'', PInt 1), (''name'', PStr ''test1''), (''is_active'', PBool True)],
                [(''id'', PInt 2), (''name'', PStr ''test2''), (''is_active'', PBool False)]]"

definition test_config :: config where
  "test_config = \<lparr>batch_size = 1000, chunk_size = 100, max_retries = 3, retry_delay = 5,
     continue_on_error = False\<rparr>"

definition ok_clients :: "unit clients" where
  "ok_clients = \<lparr>get_table_count = (\<lambda>e t s. (Inr 2, e)),
     get_table_schema = (\<lambda>e t s. (Inr test_schema, e)),
     get_table_data = (\<lambda>e t s off lim ex. (Inr test_rows, e)),
     insert_batch = (\<lambda>e t rows b. (Inr 2, e))\<rparr>"

text \<open>The same with an empty table, with insertions that insert nothing, and with reads
  that raise.\<close>

definition empty_table_clients :: "unit clients" where
  "empty_table_clients = ok_clients\<lparr>get_table_count := (\<lambda>e t s. (Inr 0, e))\<rparr>"

definition failing_insert_clients :: "unit clients" where
  "failing_insert_clients = ok_clients\<lparr>insert_batch := (\<lambda>e t rows b. (Inr 0, e))\<rparr>"

text \<open>
  The two-row table again, with an insertion that inserts nothing at the first attempt
  and both rows from then on; the state of the outside world counts the insertions.
\<close>

definition retry_then_ok_clients :: "nat clients" where
  "retry_then_ok_clients = \<lparr>get_table_count = (\<lambda>e t s. (Inr 2, e)),
     get_table_schema = (\<lambda>e t s. (Inr test_schema, e)),
     get_table_data = (\<lambda>e t s off lim ex. (Inr test_rows, e)),
     insert_batch = (\<lambda>e t rows b.
        (Inr (if e = 0 then 0 else int (length rows)), Suc e))\<rparr>"

definition raising_read_clients :: "unit clients" where
  "raising_read_clients =
     ok_clients\<lparr>get_table_data := (\<lambda>e t s off lim ex. (Inl Exception, e))\<rparr>"

text \<open>
  A table of four rows read in chunks of two. The state of the outside world counts the
  reads: the first read raises, every later one returns the rows at its offset; every
  insertion inserts all its rows.
\<close>

definition four_rows :: "row list" where
  "four_rows = [[(''id'', PInt 1)], [(''id'', PInt 2)], [(''id'', PInt 3)], [(''id'', PInt 4)]]"

definition flaky_clients :: "nat clients" where
  "flaky_clients = \<lparr>get_table_count = (\<lambda>e t s. (Inr 4, e)),
     get_table_schema = (\<lambda>e t s. (Inr test_schema, e)),
     get_table_data = (\<lambda>e t s off lim ex.
        (if e = 0 then Inl Exception else Inr (take (nat lim) (drop (nat off) four_rows)),
         Suc e)),
     insert_batch = (\<lambda>e t rows b. (Inr (int (length rows)), e))\<rparr>"

definition continue_config :: config where
  "continue_config = \<lparr>batch_size = 1000, chunk_size = 2, max_retries = 3, retry_delay = 5,
     continue_on_error = True\<rparr>"

section \<open>Properties of the TypeConverter\<close>

lemma lower_boolean: "lower ''boolean'' = ''boolean''"
  by (simp add: lower_def lower_char_def ascii_uppercase_def ascii_lowercase_def)

text \<open>
  What the loop of \<open>should_ignore_column\<close> computes: some rule is a substring of the
  type or of the UDT name, or there is at least one rule and the UDT name starts with an
  underscore.
\<close>

lemma should_ignore_loop_iff:
  "should_ignore_loop dt udt rs \<longleftrightarrow>
     (\<exists>r \<in> set rs. str_in r dt \<or> str_in r udt) \<or> (rs \<noteq> [] \<and> startswith udt ''_'')"
  by (induction rs) auto

text \<open>
  Under any rule list that is not empty, a column whose UDT name starts with an underscore
  is ignored, whether or not a rule matches.
\<close>

lemma lower_char_underscore: "lower_char c = CHR ''_'' \<longleftrightarrow> c = CHR ''_''"
  by (auto simp: lower_char_def ascii_uppercase_def ascii_lowercase_def
        split: option.splits if_splits)

lemma startswith_lower_underscore: "startswith (lower u) ''_'' \<longleftrightarrow> startswith u ''_''"
  by (cases u) (simp_all add: lower_def lower_char_underscore)

lemma should_ignore_column_array_nonempty_rules:
  assumes "rules \<noteq> []" "udt_name col = Some u" "startswith u ''_''"
  shows "should_ignore_column col rules"
  using assms
  by (simp add: should_ignore_column_def should_ignore_loop_iff startswith_lower_underscore)

text \<open>
  C1. An array column (UDT name \<open>_text\<close>) under the empty rule list: the loop body never
  runs, so the underscore test is never made and the column is not ignored.
\<close>

theorem should_ignore_column_array_empty_rules:
  "should_ignore_column tags_column [] = False"
  by (simp add: should_ignore_column_def tags_column_def)

text \<open>
  C7. \<open>should_ignore_column\<close> is monotone in the rule list: a column ignored under the
  rules \<open>R\<close> is ignored under every rule list \<open>R'\<close> that contains all rules of \<open>R\<close>.
\<close>

theorem should_ignore_column_mono:
  assumes "set R \<subseteq> set R'" and "should_ignore_column col R"
  shows "should_ignore_column col R'"
  using assms unfolding should_ignore_column_def Let_def should_ignore_loop_iff
  by auto

theorem should_ignore_column_mono_witness:
  "set [''_text''] \<subseteq> set [''json'', ''_text''] \<and> should_ignore_column tags_column [''_text'']
   \<and> should_ignore_column tags_column [''json'', ''_text'']"
proof -
  have a: "set [''_text''] \<subseteq> set [''json'', ''_text'']" by simp
  have b: "should_ignore_column tags_column [''_text'']"
    by (simp add: should_ignore_column_def tags_column_def lower_def lower_char_def
        ascii_uppercase_def ascii_lowercase_def)
  from should_ignore_column_mono [OF a b] a b show ?thesis by simp
qed

text \<open>
  C9. \<open>convert_value\<close> returns None for None whatever the type, and with the source type
  \<open>boolean\<close> it maps every other value to the integer 1 when the value is truthy and to
  the integer 0 when it is falsy.
\<close>

theorem convert_value_boolean:
  "convert_value PNone t = PNone \<and>
   (v \<noteq> PNone \<longrightarrow> convert_value v ''boolean'' = (if truthy v then PInt 1 else PInt 0))"
  by (simp add: convert_value_def lower_boolean)

theorem convert_value_boolean_witness:
  "convert_value PNone ''boolean'' = PNone \<and> convert_value (PInt 0) ''boolean'' = PInt 0
   \<and> convert_value (PStr []) ''boolean'' = PInt 0
   \<and> convert_value (PStr ''f'') ''boolean'' = PInt 1"
  using convert_value_boolean [of "''boolean''" "PInt 0"]
    convert_value_boolean [of "''boolean''" "PStr []"]
    convert_value_boolean [of "''boolean''" "PStr ''f''"] by simp

section \<open>Properties of the SchemaMigrator\<close>

subsection \<open>Stripping and the shape of a column definition\<close>

lemma isspace_simps [simp]: "isspace (CHR '' '')" "\<not> isspace (CHR ''`'')"
  by (simp_all add: isspace_def whitespace_def)

lemma rstrip_append:
  assumes "xs \<noteq> []" "\<not> isspace (last xs)"
  shows "rstrip (xs @ ys) = xs @ rstrip ys"
proof -
  from assms have "dropWhile isspace (rev xs) = rev xs"
    by (cases xs rule: rev_cases) simp_all
  then show ?thesis
    by (simp add: rstrip_def dropWhile_append dropWhile_eq_Nil_conv)
qed

lemma rstrip_snoc_space: "isspace c \<Longrightarrow> rstrip (s @ [c]) = rstrip s"
  by (simp add: rstrip_def)

lemma last_strip_nonspace:
  assumes "strip s \<noteq> []"
  shows "\<not> isspace (last (strip s))"
proof -
  let ?r = "rstrip s"
  from assms have ne: "?r \<noteq> []" by (auto simp: strip_def lstrip_def)
  then have d: "dropWhile isspace (rev s) \<noteq> []" by (simp add: rstrip_def)
  have "last ?r = hd (dropWhile isspace (rev s))"
    using d by (simp add: rstrip_def last_rev)
  with d have l: "\<not> isspace (last ?r)" by (simp add: hd_dropWhile)
  from assms
  have "last (takeWhile isspace ?r @ dropWhile isspace ?r) = last (dropWhile isspace ?r)"
    unfolding strip_def lstrip_def by (rule last_appendR)
  then have "last (strip s) = last ?r"
    by (simp add: strip_def lstrip_def)
  with l show ?thesis by simp
qed

lemma startswith_append: "startswith (p @ s) p"
  by (induction p) simp_all

lemma quote_identifier_Cons:
  "quote_identifier n = CHR ''`'' # replace_char (CHR ''`'') ''``'' n @ ''`''"
  by (simp add: quote_identifier_def)

text \<open>
  The indentation in front of the quoted name is stripped, and the stripping at the right
  end stops at the closing backtick at the latest.
\<close>

lemma strip_indented_quoted:
  "strip (''    '' @ quote_identifier n @ rest) = quote_identifier n @ rstrip rest"
proof -
  have "rstrip ((''    '' @ quote_identifier n) @ rest)
          = (''    '' @ quote_identifier n) @ rstrip rest"
    by (rule rstrip_append) (simp_all add: quote_identifier_Cons)
  then show ?thesis
    by (simp add: strip_def lstrip_def quote_identifier_Cons)
qed

lemma column_definition_eq:
  "column_definition tm pks col =
     map_option (\<lambda>t. quote_identifier (column_name col)
                      @ rstrip ('' '' @ (if column_name col \<in> set pks \<and> is_serial col
                                        then t @ '' AUTO_INCREMENT'' else t)
                                @ '' '' @ (if is_nullable col = ''NO'' then ''NOT NULL'' else [])
                                @ '' '' @ default_clause col))
       (convert_column_type tm (data_type col) col)"
proof (cases "convert_column_type tm (data_type col) col")
  case None
  then show ?thesis by (simp add: column_definition_def)
next
  case (Some t)
  show ?thesis
    unfolding column_definition_def Let_def Some option.case option.map strip_indented_quoted
    by (rule refl)
qed

subsection \<open>Serial columns\<close>

text \<open>
  C3, as the claim states it, fails. Both integer columns of \<open>events\<close> take their default
  from a sequence, so both are inferred as auto-increment, but only \<open>id\<close> is in the
  primary key: the definition of \<open>seq\<close> has no DEFAULT clause and no AUTO_INCREMENT either.
\<close>

theorem serial_column_not_primary_example:
  "is_serial seq_column \<and>
   generate_create_table_sql (map_of test_mapping) events_schema
       [''json'', ''jsonb'', ''array''] =
     Some (''CREATE TABLE IF NOT EXISTS `events` (\<newline>`id` INT AUTO_INCREMENT NOT NULL,\<newline>`seq` INT NOT NULL,\<newline>    PRIMARY KEY (`id`)\<newline>) ENGINE=InnoDB DEFAULT CHARSET=utf8mb4;'',
           [])"
  by code_simp

text \<open>
  C3, amended. For every column inferred as auto-increment (serial or bigserial type, or
  a default that contains \<open>nextval(\<close>) the DEFAULT clause is empty, and the column
  definition is the quoted name, the mapped type and the NOT NULL marker only; the
  modifier AUTO_INCREMENT follows the type exactly when the column is a member of the
  primary key.
\<close>

theorem serial_column_definition:
  assumes "is_serial col"
  shows "default_clause col = [] \<and>
         column_definition tm pks col =
           map_option (\<lambda>t. quote_identifier (column_name col)
                      @ rstrip ('' '' @ (if column_name col \<in> set pks
                                        then t @ '' AUTO_INCREMENT'' else t)
                                @ '' '' @ (if is_nullable col = ''NO'' then ''NOT NULL'' else [])))
             (convert_column_type tm (data_type col) col)"
proof -
  have d: "default_clause col = []" using assms by (simp add: default_clause_def)
  have "\<And>s. rstrip (s @ '' '') = rstrip s" by (rule rstrip_snoc_space) simp
  from this [of "'' '' @ t @ '' '' @ n" for t n]
  have r: "\<And>t n. rstrip ('' '' @ t @ '' '' @ n @ '' '') = rstrip ('' '' @ t @ '' '' @ n)"
    by simp
  show ?thesis
  proof (cases "convert_column_type tm (data_type col) col")
    case None
    then show ?thesis using d by (simp add: column_definition_eq)
  next
    case (Some t)
    show ?thesis
      unfolding column_definition_eq Some option.map d
      using assms r [of t "if is_nullable col = ''NO'' then ''NOT NULL'' else []"]
        r [of "t @ '' AUTO_INCREMENT''" "if is_nullable col = ''NO'' then ''NOT NULL'' else []"]
      by (simp del: append.simps append_Cons append_Nil)
  qed
qed

theorem serial_column_definition_witness:
  "is_serial id_column \<and> is_serial seq_column \<and>
   column_definition (map_of test_mapping) [''id''] id_column
     = Some ''`id` INT AUTO_INCREMENT NOT NULL'' \<and>
   column_definition (map_of test_mapping) [''id''] seq_column = Some ''`seq` INT NOT NULL''"
proof -
  have a: "is_serial id_column" and b: "is_serial seq_column" by code_simp+
  have c: "convert_column_type (map_of test_mapping) (data_type id_column) id_column
             = Some ''INT''"
          "convert_column_type (map_of test_mapping) (data_type seq_column) seq_column
             = Some ''INT''"
    by code_simp+
  have r: "rstrip '' INT AUTO_INCREMENT NOT NULL'' = '' INT AUTO_INCREMENT NOT NULL''"
          "rstrip '' INT NOT NULL'' = '' INT NOT NULL''"
          "quote_identifier ''id'' = ''`id`''" "quote_identifier ''seq'' = ''`seq`''"
    by code_simp+
  from serial_column_definition [OF a, of "map_of test_mapping" "[''id'']"]
       serial_column_definition [OF b, of "map_of test_mapping" "[''id'']"]
  show ?thesis using a b c r by (simp add: id_column_def seq_column_def)
qed

subsection \<open>Default values\<close>

lemma lower_literals:
  "lower ''now()'' = ''now()''"
  "lower ''NOW()'' = ''now()''"
  "lower pending_literal = pending_literal"
  "lower Pending_literal = pending_literal"
  by code_simp+

lemma strip_default_examples:
  "strip_default ''now()'' = ''now()''"
  "strip_default ''(now())'' = ''now()''"
  "strip_default '' NOW()::timestamp with time zone'' = ''NOW()''"
  "strip_default ''(now()::timestamp)'' = ''now()''"
  "strip_default pending_default = pending_literal"
  "strip_default Pending_default = Pending_literal"
  by code_simp+

lemma normalize_default_now:
  assumes "d \<noteq> []" "lower (strip_default d) = ''now()''"
  shows "normalize_default bt d = ''CURRENT_TIMESTAMP''"
  using assms by (simp add: normalize_default_def Let_def)

lemma normalize_default_passthrough:
  assumes "d \<noteq> []"
      and "lower (strip_default d)
             \<notin> set [''true'', ''t'', ''1'', ''false'', ''f'', ''0'', ''now()'']"
  shows "normalize_default bt d = strip_default d"
  using assms by (auto simp: normalize_default_def Let_def)

lemma normalize_default_examples:
  "normalize_default bt ''now()'' = ''CURRENT_TIMESTAMP''"
  "normalize_default bt ''(now())'' = ''CURRENT_TIMESTAMP''"
  "normalize_default bt ''(now()::timestamp)'' = ''CURRENT_TIMESTAMP''"
  "normalize_default bt '' NOW()::timestamp with time zone'' = ''CURRENT_TIMESTAMP''"
  by (simp_all add: normalize_default_now strip_default_examples lower_literals)

lemma normalize_default_pending:
  "normalize_default bt pending_default = pending_literal"
  "normalize_default bt Pending_default = Pending_literal"
proof -
  have ne: "pending_default \<noteq> []" "Pending_default \<noteq> []"
    by (simp_all add: pending_default_def Pending_default_def)
  have n: "pending_literal \<notin> set [''true'', ''t'', ''1'', ''false'', ''f'', ''0'', ''now()'']"
    by (simp add: pending_literal_def)
  have "normalize_default bt pending_default = strip_default pending_default"
    by (rule normalize_default_passthrough)
       (simp_all only: ne strip_default_examples lower_literals n not_False_eq_True)
  then show "normalize_default bt pending_default = pending_literal"
    by (simp only: strip_default_examples)
  have "normalize_default bt Pending_default = strip_default Pending_default"
    by (rule normalize_default_passthrough)
       (simp_all only: ne strip_default_examples lower_literals n not_False_eq_True)
  then show "normalize_default bt Pending_default = Pending_literal"
    by (simp only: strip_default_examples)
qed

lemma last_normalize_default_nonspace:
  assumes "normalize_default bt d \<noteq> []"
  shows "\<not> isspace (last (normalize_default bt d))"
proof -
  have s: "strip_default d \<noteq> [] \<Longrightarrow> \<not> isspace (last (strip_default d))"
    unfolding strip_default_def Let_def by (rule last_strip_nonspace)
  have c: "\<not> isspace (CHR ''1'')" "\<not> isspace (CHR ''0'')" "\<not> isspace (CHR ''P'')"
    by (simp_all add: isspace_def whitespace_def)
  from assms show ?thesis
    using s c by (auto simp: normalize_default_def Let_def split: if_splits)
qed

text \<open>
  A column that is not serial and has a non-empty normalised default \<open>n\<close>: its definition
  ends with \<open>DEFAULT n\<close>.
\<close>

lemma column_definition_with_default:
  assumes "\<not> is_serial col"
      and "normalize_default (lower (data_type col)) (default_or_empty col) = n" and "n \<noteq> []"
  shows "column_definition tm pks col =
           map_option (\<lambda>t. quote_identifier (column_name col) @ '' '' @ t @ '' ''
                            @ (if is_nullable col = ''NO'' then ''NOT NULL'' else [])
                            @ '' DEFAULT '' @ n)
             (convert_column_type tm (data_type col) col)"
proof -
  have l: "\<not> isspace (last n)" using assms(2,3) last_normalize_default_nonspace by blast
  have d: "default_clause col = ''DEFAULT '' @ n"
    using assms by (simp add: default_clause_def Let_def)
  have "rstrip (('' '' @ t @ '' '' @ nl @ '' DEFAULT '' @ n) @ [])
          = ('' '' @ t @ '' '' @ nl @ '' DEFAULT '' @ n) @ rstrip []" for t nl
    by (rule rstrip_append) (use l assms(3) in simp_all)
  then have r: "rstrip ('' '' @ t @ '' '' @ nl @ '' '' @ ''DEFAULT '' @ n)
                  = '' '' @ t @ '' '' @ nl @ '' DEFAULT '' @ n" for t nl
    by (simp add: rstrip_def)
  show ?thesis
  proof (cases "convert_column_type tm (data_type col) col")
    case None
    then show ?thesis by (simp add: column_definition_eq)
  next
    case (Some t)
    show ?thesis
      unfolding column_definition_eq Some option.map d
      using assms(1) r [of t "if is_nullable col = ''NO'' then ''NOT NULL'' else []"]
      by (simp del: append.simps append_Cons append_Nil)
  qed
qed

lemma no_nextval:
  "\<not> str_in ''nextval('' (lower pending_default)" "\<not> str_in ''nextval('' (lower ''now()'')"
  by code_simp+

text \<open>
  C6. Whatever the column type, a default that reads \<open>now()\<close> once whitespace, an
  enclosing pair of parentheses and a trailing cast are stripped (in this order, compared
  in lower case) is normalised to CURRENT_TIMESTAMP; the default
  \<^verbatim>\<open>'pending'::character varying\<close> is normalised to \<^verbatim>\<open>'pending'\<close>, and a literal keeps its
  case. A column that is not of a serial type and has one of these two defaults gets the
  definition that ends with \<^verbatim>\<open>DEFAULT 'pending'\<close>, respectively
  \<^verbatim>\<open>DEFAULT CURRENT_TIMESTAMP\<close>.
\<close>

theorem default_normalization:
  "(d \<noteq> [] \<and> lower (strip_default d) = ''now()'' \<longrightarrow>
      normalize_default bt d = ''CURRENT_TIMESTAMP'')
   \<and> normalize_default bt ''now()'' = ''CURRENT_TIMESTAMP''
   \<and> normalize_default bt ''(now())'' = ''CURRENT_TIMESTAMP''
   \<and> normalize_default bt ''(now()::timestamp)'' = ''CURRENT_TIMESTAMP''
   \<and> normalize_default bt '' NOW()::timestamp with time zone'' = ''CURRENT_TIMESTAMP''
   \<and> normalize_default bt pending_default = pending_literal
   \<and> normalize_default bt Pending_default = Pending_literal
   \<and> (lower (data_type col) \<notin> set [''serial'', ''bigserial'']
        \<and> column_default col = Some pending_default \<longrightarrow>
      column_definition tm pks col =
        map_option (\<lambda>t. quote_identifier (column_name col) @ '' '' @ t @ '' ''
                         @ (if is_nullable col = ''NO'' then ''NOT NULL'' else [])
                         @ '' DEFAULT '' @ pending_literal)
          (convert_column_type tm (data_type col) col))
   \<and> (lower (data_type col) \<notin> set [''serial'', ''bigserial'']
        \<and> column_default col = Some ''now()'' \<longrightarrow>
      column_definition tm pks col =
        map_option (\<lambda>t. quote_identifier (column_name col) @ '' '' @ t @ '' ''
                         @ (if is_nullable col = ''NO'' then ''NOT NULL'' else [])
                         @ '' DEFAULT CURRENT_TIMESTAMP'')
          (convert_column_type tm (data_type col) col))"
proof (intro conjI impI)
  assume "d \<noteq> [] \<and> lower (strip_default d) = ''now()''"
  then show "normalize_default bt d = ''CURRENT_TIMESTAMP''"
    by (simp add: normalize_default_now)
next
  assume a: "lower (data_type col) \<notin> set [''serial'', ''bigserial'']
        \<and> column_default col = Some pending_default"
  then have s: "\<not> is_serial col"
    using no_nextval by (simp add: is_serial_def default_or_empty_def)
  from a have n: "normalize_default (lower (data_type col)) (default_or_empty col)
                    = pending_literal"
    by (simp add: default_or_empty_def normalize_default_pending)
  have "pending_literal \<noteq> []" by (simp add: pending_literal_def)
  from column_definition_with_default [OF s n this]
  show "column_definition tm pks col =
        map_option (\<lambda>t. quote_identifier (column_name col) @ '' '' @ t @ '' ''
                         @ (if is_nullable col = ''NO'' then ''NOT NULL'' else [])
                         @ '' DEFAULT '' @ pending_literal)
          (convert_column_type tm (data_type col) col)" .
next
  assume a: "lower (data_type col) \<notin> set [''serial'', ''bigserial'']
        \<and> column_default col = Some ''now()''"
  then have s: "\<not> is_serial col"
    using no_nextval by (simp add: is_serial_def default_or_empty_def)
  from a have n: "normalize_default (lower (data_type col)) (default_or_empty col)
                    = ''CURRENT_TIMESTAMP''"
    by (simp add: default_or_empty_def normalize_default_examples)
  have "''CURRENT_TIMESTAMP'' \<noteq> []" by simp
  from column_definition_with_default [OF s n this]
  show "column_definition tm pks col =
        map_option (\<lambda>t. quote_identifier (column_name col) @ '' '' @ t @ '' ''
                         @ (if is_nullable col = ''NO'' then ''NOT NULL'' else [])
                         @ '' DEFAULT CURRENT_TIMESTAMP'')
          (convert_column_type tm (data_type col) col)"
    by simp
qed (simp_all add: normalize_default_examples normalize_default_pending)

theorem default_normalization_witness:
  "'' (NOW())'' \<noteq> [] \<and> lower (strip_default '' (NOW())'') = ''now()''
   \<and> normalize_default ''timestamp'' '' (NOW())'' = ''CURRENT_TIMESTAMP''
   \<and> lower (data_type status_column) \<notin> set [''serial'', ''bigserial'']
   \<and> column_default status_column = Some pending_default
   \<and> column_definition (map_of test_mapping) [] status_column =
       Some (''`status` VARCHAR(32) NOT NULL DEFAULT '' @ pending_literal)
   \<and> column_default created_at_column = Some ''now()''
   \<and> column_definition (map_of test_mapping) [] created_at_column =
       Some ''`created_at` TIMESTAMP  DEFAULT CURRENT_TIMESTAMP''"
proof -
  have a: "lower (strip_default '' (NOW())'') = ''now()''" by code_simp
  have b: "lower (data_type status_column) \<notin> set [''serial'', ''bigserial'']"
          "lower (data_type created_at_column) \<notin> set [''serial'', ''bigserial'']"
    by code_simp+
  have c: "column_default status_column = Some pending_default"
          "column_default created_at_column = Some ''now()''"
    by (simp_all add: status_column_def created_at_column_def)
  have t: "convert_column_type (map_of test_mapping) (data_type status_column) status_column
             = Some ''VARCHAR(32)''"
          "convert_column_type (map_of test_mapping) (data_type created_at_column)
             created_at_column = Some ''TIMESTAMP''"
    by code_simp+
  have q: "quote_identifier ''status'' = ''`status`''"
          "quote_identifier ''created_at'' = ''`created_at`''"
    by code_simp+
  from default_normalization [of "'' (NOW())''" "''timestamp''" status_column
         "map_of test_mapping" "[]"]
       default_normalization [of "'' (NOW())''" "''timestamp''" created_at_column
         "map_of test_mapping" "[]"]
  show ?thesis using a b c t q
    by (simp add: status_column_def created_at_column_def)
qed

subsection \<open>Quoted identifiers\<close>

lemma column_definitions_quoted:
  "column_definitions tm pks cols = Some defs \<Longrightarrow>
   list_all2 (\<lambda>col d. startswith d (quote_identifier (column_name col))) cols defs"
proof (induction cols arbitrary: defs)
  case Nil
  then show ?case by simp
next
  case (Cons col cols)
  then obtain d ds where d: "column_definition tm pks col = Some d"
      and ds: "column_definitions tm pks cols = Some ds" and e: "defs = d # ds"
    by (auto split: option.splits)
  from d have "startswith d (quote_identifier (column_name col))"
    by (auto simp: column_definition_eq startswith_append)
  with Cons.IH [OF ds] e show ?case by simp
qed

text \<open>Doubling the backticks keeps different names apart.\<close>

lemma replace_backtick_inj:
  "replace_char (CHR ''`'') ''``'' a = replace_char (CHR ''`'') ''``'' b \<Longrightarrow> a = b"
proof (induction a arbitrary: b)
  case Nil
  then show ?case by (cases b) (auto simp: replace_char_def split: if_splits)
next
  case (Cons x xs)
  then show ?case
    by (cases b) (auto simp: replace_char_def split: if_splits)
qed

lemma quote_identifier_inj: "quote_identifier a = quote_identifier b \<Longrightarrow> a = b"
  by (simp add: quote_identifier_def replace_backtick_inj)

text \<open>
  C10. A quoted identifier is the name between two backticks with every backtick of the
  name doubled. In the CREATE TABLE statement the table name is quoted, the definition of
  every kept column starts with the quoted column name, and the PRIMARY KEY clause lists
  the quoted names of the primary-key columns that are not ignored; in the CREATE INDEX
  statement the index name, the table name and every index column are quoted. This holds
  for every name, with or without backticks.
\<close>

theorem ddl_identifiers_quoted:
  "quote_identifier n
     = ''`'' @ concat (map (\<lambda>c. if c = CHR ''`'' then ''``'' else [c]) n) @ ''`''
   \<and> (generate_create_table_sql tm schema rules = Some (sql, ignored) \<longrightarrow>
        (\<exists>defs. sql = ''CREATE TABLE IF NOT EXISTS '' @ quote_identifier (table_name schema)
                      @ '' (\<newline>'' @ join '',\<newline>'' defs
                      @ (let pks = filter (\<lambda>pk. pk \<notin> set ignored) (primary_keys schema)
                         in if pks = [] then []
                            else '',\<newline>    PRIMARY KEY (''
                                 @ join '', '' (map quote_identifier pks) @ '')'')
                      @ ''\<newline>) ENGINE=InnoDB DEFAULT CHARSET=utf8mb4;''
           \<and> list_all2 (\<lambda>col d. startswith d (quote_identifier (column_name col)))
                 (filter (\<lambda>col. \<not> should_ignore_column col rules) (columns schema)) defs))
   \<and> generate_create_index_sql t i cols u =
        ''CREATE '' @ (if u then ''UNIQUE '' else []) @ ''INDEX '' @ quote_identifier i
          @ '' ON '' @ quote_identifier t @ '' ('' @ join '', '' (map quote_identifier cols)
          @ '');''"
proof (intro conjI impI)
  show "quote_identifier n
          = ''`'' @ concat (map (\<lambda>c. if c = CHR ''`'' then ''``'' else [c]) n) @ ''`''"
    by (simp add: quote_identifier_def replace_char_def)
next
  assume g: "generate_create_table_sql tm schema rules = Some (sql, ignored)"
  let ?kept = "filter (\<lambda>col. \<not> should_ignore_column col rules) (columns schema)"
  from g obtain defs where
    d: "column_definitions tm (primary_keys schema) ?kept = Some defs"
    by (auto simp: generate_create_table_sql_def Let_def split: option.splits)
  from g d have s: "sql = ''CREATE TABLE IF NOT EXISTS '' @ quote_identifier (table_name schema)
                      @ '' (\<newline>'' @ join '',\<newline>'' defs
                      @ (let pks = filter (\<lambda>pk. pk \<notin> set ignored) (primary_keys schema)
                         in if pks = [] then []
                            else '',\<newline>    PRIMARY KEY (''
                                 @ join '', '' (map quote_identifier pks) @ '')'')
                      @ ''\<newline>) ENGINE=InnoDB DEFAULT CHARSET=utf8mb4;''"
    by (auto simp: generate_create_table_sql_def Let_def)
  from column_definitions_quoted [OF d] s
  show "\<exists>defs. sql = ''CREATE TABLE IF NOT EXISTS '' @ quote_identifier (table_name schema)
                      @ '' (\<newline>'' @ join '',\<newline>'' defs
                      @ (let pks = filter (\<lambda>pk. pk \<notin> set ignored) (primary_keys schema)
                         in if pks = [] then []
                            else '',\<newline>    PRIMARY KEY (''
                                 @ join '', '' (map quote_identifier pks) @ '')'')
                      @ ''\<newline>) ENGINE=InnoDB DEFAULT CHARSET=utf8mb4;''
           \<and> list_all2 (\<lambda>col d. startswith d (quote_identifier (column_name col))) ?kept defs"
    by blast
next
  show "generate_create_index_sql t i cols u =
        ''CREATE '' @ (if u then ''UNIQUE '' else []) @ ''INDEX '' @ quote_identifier i
          @ '' ON '' @ quote_identifier t @ '' ('' @ join '', '' (map quote_identifier cols)
          @ '');''"
    by (simp add: generate_create_index_sql_def)
qed

theorem ddl_identifiers_quoted_witness:
  "generate_create_table_sql (map_of test_mapping) orders_schema
       [''json'', ''jsonb'', ''array'']
     = Some (''CREATE TABLE IF NOT EXISTS `or``ders` (\<newline>`id` INT AUTO_INCREMENT NOT NULL,\<newline>`status` VARCHAR(32) NOT NULL DEFAULT '' @ pending_literal @ '',\<newline>`created_at` TIMESTAMP  DEFAULT CURRENT_TIMESTAMP,\<newline>    PRIMARY KEY (`id`)\<newline>) ENGINE=InnoDB DEFAULT CHARSET=utf8mb4;'',
             [''tags''])
   \<and> (\<exists>defs. list_all2 (\<lambda>col d. startswith d (quote_identifier (column_name col)))
                 [id_column, status_column, created_at_column] defs)"
proof -
  have g: "generate_create_table_sql (map_of test_mapping) orders_schema
       [''json'', ''jsonb'', ''array'']
     = Some (''CREATE TABLE IF NOT EXISTS `or``ders` (\<newline>`id` INT AUTO_INCREMENT NOT NULL,\<newline>`status` VARCHAR(32) NOT NULL DEFAULT '' @ pending_literal @ '',\<newline>`created_at` TIMESTAMP  DEFAULT CURRENT_TIMESTAMP,\<newline>    PRIMARY KEY (`id`)\<newline>) ENGINE=InnoDB DEFAULT CHARSET=utf8mb4;'',
             [''tags''])"
    by code_simp
  have k: "filter (\<lambda>col. \<not> should_ignore_column col [''json'', ''jsonb'', ''array''])
             (columns orders_schema) = [id_column, status_column, created_at_column]"
    by code_simp
  from ddl_identifiers_quoted [of "[]" "map_of test_mapping" orders_schema
         "[''json'', ''jsonb'', ''array'']" _ "[''tags'']" "[]" "[]" "[]" False] g k
  show ?thesis by auto
qed

section \<open>Properties of the DataMigrator\<close>

subsection \<open>The result dictionary\<close>

lemma loop_body_failed_mono:
  "loop_body cl cfg tn sch ign ct st = (c, st') \<Longrightarrow> 0 \<le> chunk_size cfg
     \<Longrightarrow> failed st \<le> failed st'"
  by (auto simp: loop_body_def on_exception_def Let_def
        split: prod.splits sum.splits if_splits)

text \<open>The failure counter never decreases when the chunk size is not negative.\<close>

lemma migrate_loop_failed_mono:
  assumes "migrate_loop cl cfg tn sch ign ct tot st = Some st'"
  shows "0 \<le> chunk_size cfg \<longrightarrow> failed st \<le> failed st'"
proof (rule migrate_loop.raw_induct [where P = "\<lambda>cl cfg tn sch ign ct tot st st'.
        0 \<le> chunk_size cfg \<longrightarrow> failed st \<le> failed st'", OF _ assms], goal_cases)
  case (1 f cl cfg tn sch ign ct tot st y)
  show ?case
  proof
    assume c: "0 \<le> chunk_size cfg"
    show "failed st \<le> failed y"
    proof (cases "migrated st < tot")
      case False
      with 1(2) show ?thesis by simp
    next
      case True
      obtain k st1 where b: "loop_body cl cfg tn sch ign ct st = (k, st1)"
        by (cases "loop_body cl cfg tn sch ign ct st")
      from loop_body_failed_mono [OF b c] have m: "failed st \<le> failed st1" .
      show ?thesis
      proof (cases k)
        case Break
        with 1(2) True b m show ?thesis by simp
      next
        case Continue
        with 1(2) True b have "f cl cfg tn sch ign ct tot st1 = Some y" by simp
        from 1(1) [OF this] c m show ?thesis by simp
      qed
    qed
  qed
qed

text \<open>
  C5, as the claim states it, fails. For a table without rows the dictionary has the two
  keys \<open>table_name\<close> and \<open>status\<close> only; \<open>migrated\<close>, \<open>failed\<close> and \<open>total\<close> are absent
  (tests/test_data.py asserts that \<open>migrated\<close> is not a key of it). No row is read or
  written.
\<close>

theorem skipped_result_example:
  "migrate_table_data empty_table_clients test_config ''empty_table'' ''public'' [] () =
     Some (Inr [(''table_name'', RStr ''empty_table''), (''status'', RStr ''skipped'')],
           (), [GetTableCount])
   \<and> map_of [(''table_name'', RStr ''empty_table''), (''status'', RStr ''skipped'')]
        ''migrated'' = None"
  by code_simp

text \<open>
  C5, amended. Whenever \<open>migrate_table_data\<close> returns a dictionary for a table whose
  row count is not zero, the dictionary carries \<open>table_name\<close>, \<open>status\<close>, \<open>migrated\<close>,
  \<open>failed\<close> and \<open>total\<close>, and the status is \<open>success\<close> when \<open>failed\<close> is 0 and \<open>partial\<close>
  otherwise (\<open>failed\<close> is never negative when the chunk size is not). For a row count of
  zero the dictionary is \<open>table_name\<close> and the status \<open>skipped\<close>, and nothing else.
\<close>

theorem migrate_table_data_result_fields:
  assumes "migrate_table_data cl cfg tn sch ign e0 = Some (Inr r, e, cs)"
      and "get_table_count cl e0 tn sch = (Inr total_count, e1)"
  shows "(total_count = 0 \<longrightarrow>
            r = [(''table_name'', RStr tn), (''status'', RStr ''skipped'')]) \<and>
         (total_count \<noteq> 0 \<longrightarrow>
            (\<exists>m f. r = [(''table_name'', RStr tn),
                        (''status'', RStr (if f = 0 then ''success'' else ''partial'')),
                        (''migrated'', RInt m), (''failed'', RInt f),
                        (''total'', RInt total_count)]
                 \<and> (0 \<le> chunk_size cfg \<longrightarrow> 0 \<le> f)))"
proof (cases "total_count = 0")
  case True
  with assms show ?thesis by (simp add: migrate_table_data_def)
next
  case False
  from assms False obtain si e2 st where
    l: "migrate_loop cl cfg tn sch ign (column_type_map si ign) total_count
         \<lparr>env = e2, calls = [GetTableCount, GetTableSchema], migrated = 0, failed = 0,
          retry_count = 0\<rparr> = Some st"
    and r: "r = [(''table_name'', RStr tn),
                 (''status'', RStr (if failed st = 0 then ''success'' else ''partial'')),
                 (''migrated'', RInt (migrated st)), (''failed'', RInt (failed st)),
                 (''total'', RInt total_count)]"
    by (auto simp: migrate_table_data_def split: prod.splits sum.splits option.splits)
  from migrate_loop_failed_mono [OF l] have "0 \<le> chunk_size cfg \<longrightarrow> 0 \<le> failed st"
    by simp
  with r False show ?thesis by blast
qed

lemma ok_run:
  "migrate_table_data ok_clients test_config ''test_table'' ''public'' [] () =
     Some (Inr [(''table_name'', RStr ''test_table''), (''status'', RStr ''success''),
                (''migrated'', RInt 2), (''failed'', RInt 0), (''total'', RInt 2)],
           (), [GetTableCount, GetTableSchema, GetTableData 0 100, InsertBatch 2])"
  by code_simp

lemma empty_run:
  "migrate_table_data empty_table_clients test_config ''empty_table'' ''public'' [] () =
     Some (Inr [(''table_name'', RStr ''empty_table''), (''status'', RStr ''skipped'')],
           (), [GetTableCount])"
  by code_simp

theorem migrate_table_data_result_fields_witness:
  "migrate_table_data ok_clients test_config ''test_table'' ''public'' [] () =
     Some (Inr [(''table_name'', RStr ''test_table''), (''status'', RStr ''success''),
                (''migrated'', RInt 2), (''failed'', RInt 0), (''total'', RInt 2)],
           (), [GetTableCount, GetTableSchema, GetTableData 0 100, InsertBatch 2])
   \<and> get_table_count ok_clients () ''test_table'' ''public'' = (Inr 2, ())
   \<and> (\<exists>m f. [(''table_name'', RStr ''test_table''), (''status'', RStr ''success''),
                (''migrated'', RInt 2), (''failed'', RInt 0), (''total'', RInt 2)] =
              [(''table_name'', RStr ''test_table''),
               (''status'', RStr (if f = 0 then ''success'' else ''partial'')),
               (''migrated'', RInt m), (''failed'', RInt f), (''total'', RInt 2)]
            \<and> (0 \<le> chunk_size test_config \<longrightarrow> 0 \<le> f))
   \<and> migrate_table_data empty_table_clients test_config ''empty_table'' ''public'' [] () =
     Some (Inr [(''table_name'', RStr ''empty_table''), (''status'', RStr ''skipped'')],
           (), [GetTableCount])
   \<and> get_table_count empty_table_clients () ''empty_table'' ''public'' = (Inr 0, ())"
proof -
  have c: "get_table_count ok_clients () ''test_table'' ''public'' = (Inr 2, ())"
    by (simp add: ok_clients_def)
  have d: "get_table_count empty_table_clients () ''empty_table'' ''public'' = (Inr 0, ())"
    by (simp add: empty_table_clients_def ok_clients_def)
  from migrate_table_data_result_fields [OF ok_run c]
       migrate_table_data_result_fields [OF empty_run d] ok_run empty_run c d
  show ?thesis by simp
qed

subsection \<open>Insertions that insert nothing\<close>

text \<open>
  C2. The table of the tests has two rows, every insertion returns 0 and \<open>max_retries\<close>
  is 3. The loop compares \<open>retry_count\<close> with \<open>max_retries\<close> before it increments the
  counter, so the batch is handed over four times, not three; and every failed attempt
  adds its two rows to \<open>failed\<close>, which ends at 8, not at the row count 2. Status
  \<open>partial\<close>, \<open>migrated\<close> 0 and the same offset 0 for every read are as the claim says.
\<close>

theorem all_inserts_fail_example:
  "migrate_table_data failing_insert_clients test_config ''test_table'' ''public'' [] () =
     Some (Inr [(''table_name'', RStr ''test_table''), (''status'', RStr ''partial''),
                (''migrated'', RInt 0), (''failed'', RInt 8), (''total'', RInt 2)],
           (),
           [GetTableCount, GetTableSchema,
            GetTableData 0 100, InsertBatch 2, Sleep 5,
            GetTableData 0 100, InsertBatch 2, Sleep 5,
            GetTableData 0 100, InsertBatch 2, Sleep 5,
            GetTableData 0 100, InsertBatch 2])"
  by code_simp

text \<open>
  The rows of a failed attempt stay in \<open>failed\<close> when the retry succeeds: one failed
  attempt, then both rows inserted, and the table that is migrated in full is reported
  as \<open>partial\<close> with \<open>failed\<close> 2.
\<close>

lemma retry_then_ok_run:
  "migrate_table_data retry_then_ok_clients test_config ''test_table'' ''public'' [] 0 =
     Some (Inr [(''table_name'', RStr ''test_table''), (''status'', RStr ''partial''),
                (''migrated'', RInt 2), (''failed'', RInt 2), (''total'', RInt 2)],
           2,
           [GetTableCount, GetTableSchema,
            GetTableData 0 100, InsertBatch 2, Sleep 5,
            GetTableData 0 100, InsertBatch 2])"
  by code_simp

text \<open>
  A delay that \<^verbatim>\<open>time.sleep\<close> refuses ends the retries at once: the exception of the
  first sleep goes to the handler, which adds a chunk's worth to \<open>failed\<close> and, without
  \<open>continue_on_error\<close>, leaves the loop after a single insertion attempt.
\<close>

lemma sleep_raises_run:
  "migrate_table_data failing_insert_clients (test_config\<lparr>retry_delay := 9223372036\<rparr>)
       ''test_table'' ''public'' [] () =
     Some (Inr [(''table_name'', RStr ''test_table''), (''status'', RStr ''partial''),
                (''migrated'', RInt 0), (''failed'', RInt 102), (''total'', RInt 2)],
           (),
           [GetTableCount, GetTableSchema, GetTableData 0 100, InsertBatch 2])"
  by code_simp

text \<open>
  One pass of the loop at offset 0 when every read returns rows and every insertion
  returns 0: a retry is scheduled while \<open>retry_count\<close> is below \<open>max_retries\<close>, otherwise
  the loop is left.
\<close>

lemma all_fail_body:
  assumes reads: "\<And>e. \<exists>rows e'. get_table_data cl e tn sch 0 (chunk_size cfg) ign
                          = (Inr rows, e') \<and> rows \<noteq> []"
      and writes: "\<And>e rows. \<exists>e'. insert_batch cl e tn rows (batch_size cfg) = (Inr 0, e')"
      and delay: "\<not> sleep_raises (retry_delay cfg)"
      and m: "migrated st = 0"
  shows "\<exists>e n. 0 < n \<and> loop_body cl cfg tn sch ign ct st =
           (if retry_count st < max_retries cfg
            then (Continue, st\<lparr>env := e,
                    calls := calls st @ [GetTableData 0 (chunk_size cfg), InsertBatch n,
                                         Sleep (retry_delay cfg)],
                    failed := failed st + int n, retry_count := retry_count st + 1\<rparr>)
            else (Break, st\<lparr>env := e,
                    calls := calls st @ [GetTableData 0 (chunk_size cfg), InsertBatch n],
                    failed := failed st + int n\<rparr>))"
proof -
  from reads [of "env st"] obtain rows e1 where
    r: "get_table_data cl (env st) tn sch 0 (chunk_size cfg) ign = (Inr rows, e1)"
       "rows \<noteq> []"
    by blast
  from writes [of e1 "map (convert_row ct) rows"] obtain e2 where
    w: "insert_batch cl e1 tn (map (convert_row ct) rows) (batch_size cfg) = (Inr 0, e2)"
    by blast
  have "loop_body cl cfg tn sch ign ct st =
           (if retry_count st < max_retries cfg
            then (Continue, st\<lparr>env := e2,
                    calls := calls st @ [GetTableData 0 (chunk_size cfg),
                                         InsertBatch (length rows), Sleep (retry_delay cfg)],
                    failed := failed st + int (length rows),
                    retry_count := retry_count st + 1\<rparr>)
            else (Break, st\<lparr>env := e2,
                    calls := calls st @ [GetTableData 0 (chunk_size cfg),
                                         InsertBatch (length rows)],
                    failed := failed st + int (length rows)\<rparr>))"
    using r w delay m by (simp add: loop_body_def)
  moreover from r(2) have "0 < length rows" by simp
  ultimately show ?thesis by blast
qed

text \<open>The loop from a state with \<open>k\<close> retries left: it ends after \<open>k + 1\<close> passes.\<close>

lemma all_fail_loop:
  assumes reads: "\<And>e. \<exists>rows e'. get_table_data cl e tn sch 0 (chunk_size cfg) ign
                          = (Inr rows, e') \<and> rows \<noteq> []"
      and writes: "\<And>e rows. \<exists>e'. insert_batch cl e tn rows (batch_size cfg) = (Inr 0, e')"
      and delay: "\<not> sleep_raises (retry_delay cfg)"
      and tot: "0 < total_count"
  shows "migrated st = 0 \<Longrightarrow> retry_count st \<le> max_retries cfg
         \<Longrightarrow> k = nat (max_retries cfg - retry_count st) \<Longrightarrow>
         \<exists>st'. migrate_loop cl cfg tn sch ign ct total_count st = Some st'
              \<and> migrated st' = 0 \<and> failed st < failed st'
              \<and> length (filter is_insert (calls st'))
                  = length (filter is_insert (calls st)) + k + 1
              \<and> length (filter is_read (calls st'))
                  = length (filter is_read (calls st)) + k + 1
              \<and> set (filter is_read (calls st'))
                  \<subseteq> set (filter is_read (calls st)) \<union> {GetTableData 0 (chunk_size cfg)}"
proof (induction k arbitrary: st)
  case 0
  then have nr: "\<not> retry_count st < max_retries cfg" by simp
  from all_fail_body [OF reads writes delay 0(1), of ct] nr obtain e n where
    b: "0 < n" "loop_body cl cfg tn sch ign ct st = (Break, st\<lparr>env := e,
                    calls := calls st @ [GetTableData 0 (chunk_size cfg), InsertBatch n],
                    failed := failed st + int n\<rparr>)"
    by auto
  show ?case
    by (subst migrate_loop.simps) (use 0 tot b in auto)
next
  case (Suc k)
  then have rl: "retry_count st < max_retries cfg" by simp
  from all_fail_body [OF reads writes delay Suc(2), of ct] rl obtain e n where
    b: "0 < n" "loop_body cl cfg tn sch ign ct st = (Continue, st\<lparr>env := e,
                    calls := calls st @ [GetTableData 0 (chunk_size cfg), InsertBatch n,
                                         Sleep (retry_delay cfg)],
                    failed := failed st + int n, retry_count := retry_count st + 1\<rparr>)"
    by auto
  let ?st1 = "st\<lparr>env := e,
                    calls := calls st @ [GetTableData 0 (chunk_size cfg), InsertBatch n,
                                         Sleep (retry_delay cfg)],
                    failed := failed st + int n, retry_count := retry_count st + 1\<rparr>"
  have "migrated ?st1 = 0" "retry_count ?st1 \<le> max_retries cfg"
       "k = nat (max_retries cfg - retry_count ?st1)"
    using Suc(2,3,4) rl by simp_all
  from Suc(1) [OF this] obtain st' where
    s: "migrate_loop cl cfg tn sch ign ct total_count ?st1 = Some st'"
       "migrated st' = 0" "failed ?st1 < failed st'"
       "length (filter is_insert (calls st')) = length (filter is_insert (calls ?st1)) + k + 1"
       "length (filter is_read (calls st')) = length (filter is_read (calls ?st1)) + k + 1"
       "set (filter is_read (calls st'))
          \<subseteq> set (filter is_read (calls ?st1)) \<union> {GetTableData 0 (chunk_size cfg)}"
    by blast
  have "migrate_loop cl cfg tn sch ign ct total_count st = Some st'"
    by (subst migrate_loop.simps) (use Suc(2) tot b s(1) in simp)
  moreover from s(3) b(1) have "failed st < failed st'" by simp
  moreover from s(4)
  have "length (filter is_insert (calls st'))
          = length (filter is_insert (calls st)) + Suc k + 1"
    by simp
  moreover from s(5)
  have "length (filter is_read (calls st')) = length (filter is_read (calls st)) + Suc k + 1"
    by simp
  moreover from s(6)
  have "set (filter is_read (calls st'))
          \<subseteq> set (filter is_read (calls st)) \<union> {GetTableData 0 (chunk_size cfg)}"
    by auto
  ultimately show ?case using s(2) by blast
qed

text \<open>
  The count of the example holds in general. For a table with rows, when every read at
  offset 0 returns rows, every insertion returns 0 inserted rows and no call raises
  (\<open>max_retries\<close> not negative, a delay that \<^verbatim>\<open>time.sleep\<close> accepts), the code makes
  \<open>max_retries + 1\<close> insertion attempts, each after a read at offset 0, before it
  returns with status \<open>partial\<close>, \<open>migrated\<close> 0 and a positive \<open>failed\<close>.
\<close>

lemma migrate_table_data_all_inserts_fail:
  assumes count: "get_table_count cl e0 tn sch = (Inr total_count, e1)"
      and tot: "0 < total_count"
      and schema: "get_table_schema cl e1 tn sch = (Inr si, e2)"
      and reads: "\<forall>e. \<exists>rows e'. get_table_data cl e tn sch 0 (chunk_size cfg) ign
                          = (Inr rows, e') \<and> rows \<noteq> []"
      and writes: "\<forall>e rows. \<exists>e'. insert_batch cl e tn rows (batch_size cfg) = (Inr 0, e')"
      and delay: "\<not> sleep_raises (retry_delay cfg)"
      and retries: "0 \<le> max_retries cfg"
  shows "\<exists>e cs f. migrate_table_data cl cfg tn sch ign e0 =
             Some (Inr [(''table_name'', RStr tn), (''status'', RStr ''partial''),
                        (''migrated'', RInt 0), (''failed'', RInt f),
                        (''total'', RInt total_count)], e, cs)
           \<and> 0 < f
           \<and> length (filter is_insert cs) = nat (max_retries cfg) + 1
           \<and> length (filter is_read cs) = nat (max_retries cfg) + 1
           \<and> (\<forall>c \<in> set cs. is_read c \<longrightarrow> c = GetTableData 0 (chunk_size cfg))"
proof -
  let ?st = "\<lparr>env = e2, calls = [GetTableCount, GetTableSchema], migrated = 0, failed = 0,
              retry_count = 0\<rparr>"
  from reads have r: "\<And>e. \<exists>rows e'. get_table_data cl e tn sch 0 (chunk_size cfg) ign
                              = (Inr rows, e') \<and> rows \<noteq> []"
    by blast
  from writes
  have w: "\<And>e rows. \<exists>e'. insert_batch cl e tn rows (batch_size cfg) = (Inr 0, e')"
    by blast
  have "migrated ?st = 0" "retry_count ?st \<le> max_retries cfg"
       "nat (max_retries cfg) = nat (max_retries cfg - retry_count ?st)"
    using retries by simp_all
  from all_fail_loop [OF r w delay tot this, of "column_type_map si ign"]
  obtain st' where
    l: "migrate_loop cl cfg tn sch ign (column_type_map si ign) total_count ?st = Some st'"
    and m: "migrated st' = 0" and f: "failed ?st < failed st'"
    and i: "length (filter is_insert (calls st')) =
              length (filter is_insert (calls ?st)) + nat (max_retries cfg) + 1"
    and rd: "length (filter is_read (calls st')) =
              length (filter is_read (calls ?st)) + nat (max_retries cfg) + 1"
    and s: "set (filter is_read (calls st'))
              \<subseteq> set (filter is_read (calls ?st)) \<union> {GetTableData 0 (chunk_size cfg)}"
    by blast
  from f have f0: "0 < failed st'" by simp
  have "migrate_table_data cl cfg tn sch ign e0 =
          Some (Inr [(''table_name'', RStr tn), (''status'', RStr ''partial''),
                     (''migrated'', RInt 0), (''failed'', RInt (failed st')),
                     (''total'', RInt total_count)], env st', calls st')"
    using count tot schema l m f0 by (simp add: migrate_table_data_def)
  moreover from i have "length (filter is_insert (calls st')) = nat (max_retries cfg) + 1"
    by simp
  moreover from rd have "length (filter is_read (calls st')) = nat (max_retries cfg) + 1"
    by simp
  moreover from s
  have "\<forall>c \<in> set (calls st'). is_read c \<longrightarrow> c = GetTableData 0 (chunk_size cfg)"
    by auto
  ultimately show ?thesis using f0 by blast
qed

lemma migrate_table_data_all_inserts_fail_at_test_table:
  "\<exists>e cs f. migrate_table_data failing_insert_clients test_config ''test_table'' ''public''
               [] () =
             Some (Inr [(''table_name'', RStr ''test_table''), (''status'', RStr ''partial''),
                        (''migrated'', RInt 0), (''failed'', RInt f), (''total'', RInt 2)],
                   e, cs)
           \<and> 0 < f
           \<and> length (filter is_insert cs) = 4
           \<and> length (filter is_read cs) = 4
           \<and> (\<forall>c \<in> set cs. is_read c \<longrightarrow> c = GetTableData 0 100)"
  using migrate_table_data_all_inserts_fail [of failing_insert_clients "()" "''test_table''"
          "''public''" 2 "()" test_schema "()" test_config "[]"]
  by (simp add: failing_insert_clients_def ok_clients_def test_config_def test_rows_def
        sleep_raises_def)

subsection \<open>Exceptions with \<open>continue_on_error\<close>\<close>

text \<open>
  C4. The first read of the four-row table raises and \<open>continue_on_error\<close> is set: the
  handler adds the chunk size 2 to \<open>failed\<close> and leaves \<open>migrated\<close> as it is, so the next
  read is again at offset 0, not at offset 2; the chunk counted as failed is then read
  and inserted, and the run ends with all four rows migrated and \<open>failed\<close> 2.
\<close>

theorem read_exception_same_offset:
  "migrate_table_data flaky_clients continue_config ''test_table'' ''public'' [] 0 =
     Some (Inr [(''table_name'', RStr ''test_table''), (''status'', RStr ''partial''),
                (''migrated'', RInt 4), (''failed'', RInt 2), (''total'', RInt 4)],
           3,
           [GetTableCount, GetTableSchema, GetTableData 0 2, GetTableData 0 2, InsertBatch 2,
            GetTableData 2 2, InsertBatch 2])"
  by code_simp

text \<open>
  Without \<open>continue_on_error\<close> (the default) the loop always ends, provided no
  insertion reports a negative count: a pass that does not leave the loop either advances
  \<open>migrated\<close> or uses up one of the retries.
\<close>

lemma loop_body_continue_progress:
  assumes nc: "\<not> continue_on_error cfg"
      and nonneg: "\<And>e rows n e'. insert_batch cl e tn rows (batch_size cfg) = (Inr n, e')
                     \<Longrightarrow> 0 \<le> n"
      and b: "loop_body cl cfg tn sch ign ct st = (Continue, st')"
  shows "migrated st < migrated st'
         \<or> (migrated st' = migrated st \<and> retry_count st < max_retries cfg
            \<and> retry_count st' = retry_count st + 1)"
proof (cases "get_table_data cl (env st) tn sch (migrated st) (chunk_size cfg) ign")
  case (Pair a e1)
  show ?thesis
  proof (cases a)
    case (Inl ex)
    with Pair b nc show ?thesis by (simp add: loop_body_def on_exception_def)
  next
    case (Inr data)
    show ?thesis
    proof (cases "data = []")
      case True
      with Pair Inr b show ?thesis by (simp add: loop_body_def)
    next
      case False
      obtain w e2 where
        w: "insert_batch cl e1 tn (map (convert_row ct) data) (batch_size cfg) = (w, e2)"
        by (cases "insert_batch cl e1 tn (map (convert_row ct) data) (batch_size cfg)")
      show ?thesis
      proof (cases w)
        case (Inl ex)
        with Pair Inr False w b nc show ?thesis
          by (simp add: loop_body_def on_exception_def)
      next
        case (Inr n)
        with w nonneg have "0 \<le> n" by blast
        with Pair \<open>a = Inr data\<close> False w Inr b nc show ?thesis
          by (auto simp: loop_body_def on_exception_def Let_def split: if_splits)
      qed
    qed
  qed
qed

lemma migrate_loop_returns:
  assumes nc: "\<not> continue_on_error cfg"
      and nonneg: "\<And>e rows n e'. insert_batch cl e tn rows (batch_size cfg) = (Inr n, e')
                     \<Longrightarrow> 0 \<le> n"
  shows "\<exists>st'. migrate_loop cl cfg tn sch ign ct tot st = Some st'"
proof (induction st rule: wf_induct_rule [OF wf_measures
         [of "[\<lambda>st. nat (tot - migrated st), \<lambda>st. nat (max_retries cfg - retry_count st)]"]])
  case (1 st)
  show ?case
  proof (cases "migrated st < tot")
    case False
    then show ?thesis by (subst migrate_loop.simps) simp
  next
    case True
    obtain k st1 where b: "loop_body cl cfg tn sch ign ct st = (k, st1)"
      by (cases "loop_body cl cfg tn sch ign ct st")
    show ?thesis
    proof (cases k)
      case Break
      with True b show ?thesis by (subst migrate_loop.simps) simp
    next
      case Continue
      from loop_body_continue_progress [OF nc nonneg b [unfolded Continue]] True
      have "(st1, st) \<in> measures [\<lambda>st. nat (tot - migrated st),
                                   \<lambda>st. nat (max_retries cfg - retry_count st)]"
        by auto
      from 1 [OF this] obtain st' where "migrate_loop cl cfg tn sch ign ct tot st1 = Some st'"
        by blast
      with True b Continue show ?thesis by (subst migrate_loop.simps) simp
    qed
  qed
qed

lemma migrate_table_data_returns:
  assumes nc: "\<not> continue_on_error cfg"
      and nonneg: "\<And>e rows n e'. insert_batch cl e tn rows (batch_size cfg) = (Inr n, e')
                     \<Longrightarrow> 0 \<le> n"
  shows "\<exists>y. migrate_table_data cl cfg tn sch ign e0 = Some y"
proof -
  obtain c e1 where c: "get_table_count cl e0 tn sch = (c, e1)"
    by (cases "get_table_count cl e0 tn sch")
  show ?thesis
  proof (cases c)
    case (Inl ex)
    with c show ?thesis by (simp add: migrate_table_data_def)
  next
    case (Inr total_count)
    obtain s e2 where s: "get_table_schema cl e1 tn sch = (s, e2)"
      by (cases "get_table_schema cl e1 tn sch")
    show ?thesis
    proof (cases s)
      case (Inl ex)
      with c \<open>c = Inr total_count\<close> s show ?thesis by (simp add: migrate_table_data_def)
    next
      case (Inr schema_info)
      have "\<exists>st'. migrate_loop cl cfg tn sch ign (column_type_map schema_info ign)
                   total_count
                   \<lparr>env = e2, calls = [GetTableCount, GetTableSchema], migrated = 0,
                    failed = 0, retry_count = 0\<rparr> = Some st'"
        using nc nonneg by (rule migrate_loop_returns)
      then obtain st' where
        "migrate_loop cl cfg tn sch ign (column_type_map schema_info ign) total_count
           \<lparr>env = e2, calls = [GetTableCount, GetTableSchema], migrated = 0, failed = 0,
            retry_count = 0\<rparr> = Some st'"
        by blast
      with c \<open>c = Inr total_count\<close> s Inr show ?thesis
        by (simp add: migrate_table_data_def)
    qed
  qed
qed

text \<open>
  When every read raises and \<open>continue_on_error\<close> is set, a pass of the loop changes
  the failure counter and the call log only.
\<close>

lemma raising_read_body:
  "loop_body raising_read_clients continue_config tn sch ign ct st =
     (Continue, st\<lparr>env := env st, calls := calls st @ [GetTableData (migrated st) 2],
                   failed := failed st + 2\<rparr>)"
  by (simp add: loop_body_def raising_read_clients_def ok_clients_def on_exception_def
      continue_config_def)

lemma raising_read_loop_never_returns:
  assumes "migrate_loop cl cfg tn sch ign ct tot st = Some y"
  shows "\<not> (cl = raising_read_clients \<and> cfg = continue_config \<and> migrated st < tot)"
proof (rule migrate_loop.raw_induct [where P = "\<lambda>cl cfg tn sch ign ct tot st y.
        \<not> (cl = raising_read_clients \<and> cfg = continue_config \<and> migrated st < tot)",
        OF _ assms], goal_cases)
  case (1 f cl cfg tn sch ign ct tot st y)
  show ?case
  proof
    assume a: "cl = raising_read_clients \<and> cfg = continue_config \<and> migrated st < tot"
    with 1(2) have "f cl cfg tn sch ign ct tot
        (st\<lparr>env := env st, calls := calls st @ [GetTableData (migrated st) 2],
            failed := failed st + 2\<rparr>) = Some y"
      by (simp add: raising_read_body)
    from 1(1) [OF this] a show False by simp
  qed
qed

text \<open>
  C8. For the two-row table whose every read raises, with \<open>continue_on_error\<close> set,
  \<open>migrate_table_data\<close> does not return: each pass neither advances \<open>migrated\<close> nor
  leaves the loop.
\<close>

theorem migrate_table_data_never_returns:
  "migrate_table_data raising_read_clients continue_config ''test_table'' ''public'' [] ()
     = None"
proof -
  have "migrate_loop raising_read_clients continue_config
          ''test_table'' ''public'' [] (column_type_map test_schema []) 2
          \<lparr>env = (), calls = [GetTableCount, GetTableSchema], migrated = 0, failed = 0,
           retry_count = 0\<rparr> = None"
    using raising_read_loop_never_returns
    by (cases "migrate_loop raising_read_clients continue_config
          ''test_table'' ''public'' [] (column_type_map test_schema []) 2
          \<lparr>env = (), calls = [GetTableCount, GetTableSchema], migrated = 0, failed = 0,
           retry_count = 0\<rparr>") fastforce+
  then show ?thesis
    by (simp add: migrate_table_data_def raising_read_clients_def ok_clients_def)
qed

end
